theory Spec2Isabelle
  imports Complex_Main "HOL-Library.Word"
begin

section \<open>Data model of SiStripRegionCabling\<close>

text \<open>
  The class lives in CalibFormats/SiStripObjects/interface/SiStripRegionCabling.h.
  All of its index arithmetic is done on \<open>uint32_t\<close>, modelled as \<open>32 word\<close>, so
  that \<open>+\<close>, \<open>-\<close> and \<open>*\<close> wrap modulo \<open>2 ^ 32\<close> as they do in C++.
  A \<open>double\<close> is the real number it stands for, and the \<open>double\<close> arithmetic
  that the window selector needs is taken as exact real arithmetic, without rounding.
\<close>

type_synonym uint32_t = "32 word"

text \<open>\<open>enum SubDet {TIB = 0, TOB = 1, TID = 2, TEC = 3, UNKNOWN = 4}\<close>\<close>

datatype SubDet = TIB | TOB | TID | TEC | UNKNOWN

type_synonym Position = "real \<times> real"
type_synonym PositionIndex = "uint32_t \<times> uint32_t"
type_synonym Region = uint32_t
type_synonym Layer = uint32_t
type_synonym ElementIndex = uint32_t

text \<open>
  The cabling itself: \<open>std::map<uint32_t, std::vector<FedChannelConnection>>\<close> nested in
  three levels of \<open>std::vector\<close>. \<open>FedChannelConnection\<close> is declared in CondFormats and
  stays a type parameter \<open>'c\<close>.
\<close>

type_synonym 'c ElementCabling = "uint32_t \<rightharpoonup> 'c list"
type_synonym 'c WedgeCabling = "'c ElementCabling list"
type_synonym 'c RegionCabling = "'c WedgeCabling list"
type_synonym 'c Cabling = "'c RegionCabling list"

text \<open>
  The four private data members of the class. The source writes them with a trailing
  underscore (\<open>etadivisions_\<close>, \<open>phidivisions_\<close>, \<open>etamax_\<close>, \<open>regioncabling_\<close>),
  which Isabelle does not admit in a record update; the fields carry the suffix \<open>_m\<close>.
\<close>

record 'c SiStripRegionCabling =
  etadivisions_m :: uint32_t
  phidivisions_m :: uint32_t
  etamax_m :: real
  regioncabling_m :: "'c Cabling"

definition MAXLAYERS :: uint32_t where
  "MAXLAYERS = 10"

definition MAXSUBDETS :: uint32_t where
  "MAXSUBDETS = 4"

text \<open>
  The implicit conversion of an enumerator to \<open>uint32_t\<close> (in \<open>subdet*MAXLAYERS\<close>) and
  the \<open>static_cast<SubDet>\<close> back. The cast is only ever applied to a value reduced
  modulo \<open>MAXSUBDETS\<close>; a value above 4 names no enumerator and is mapped to
  \<open>UNKNOWN\<close> here to keep the function total.
\<close>

fun SubDet_value :: "SubDet \<Rightarrow> uint32_t" where
  "SubDet_value TIB = 0"
| "SubDet_value TOB = 1"
| "SubDet_value TID = 2"
| "SubDet_value TEC = 3"
| "SubDet_value UNKNOWN = 4"

definition SubDet_cast :: "uint32_t \<Rightarrow> SubDet" where
  "SubDet_cast v =
     (if v = 0 then TIB else if v = 1 then TOB else if v = 2 then TID
      else if v = 3 then TEC else UNKNOWN)"

section \<open>Set and get methods\<close>

definition setRegionCabling :: "'c SiStripRegionCabling \<Rightarrow> 'c Cabling \<Rightarrow> 'c SiStripRegionCabling" where
  "setRegionCabling s regioncabling = s\<lparr>regioncabling_m := regioncabling\<rparr>"

definition getRegionCabling :: "'c SiStripRegionCabling \<Rightarrow> 'c Cabling" where
  "getRegionCabling s = regioncabling_m s"

definition etadivisions :: "'c SiStripRegionCabling \<Rightarrow> uint32_t" where
  "etadivisions s = etadivisions_m s"

definition phidivisions :: "'c SiStripRegionCabling \<Rightarrow> uint32_t" where
  "phidivisions s = phidivisions_m s"

section \<open>Region and region-index arithmetic\<close>

text \<open>
  \<open>positionIndex(Region)\<close> divides by \<open>phidivisions_m\<close>; an integer division by zero has
  no defined result in C++, which the model reports as \<open>None\<close>.
\<close>

definition positionIndex_Region :: "'c SiStripRegionCabling \<Rightarrow> Region \<Rightarrow> PositionIndex option" where
  "positionIndex_Region s region =
     (if phidivisions_m s = 0 then None
      else Some (region div phidivisions_m s, region mod phidivisions_m s))"

definition region_PositionIndex :: "'c SiStripRegionCabling \<Rightarrow> PositionIndex \<Rightarrow> Region" where
  "region_PositionIndex s index = fst index * phidivisions_m s + snd index"

text \<open>
  \<open>periodicIndex\<close> takes its argument by reference: the model returns the flag together
  with the index as the caller sees it afterwards. Both comparisons with 0 are kept as
  the source writes them, on unsigned values.
\<close>

definition periodicIndex :: "'c SiStripRegionCabling \<Rightarrow> PositionIndex \<Rightarrow> bool \<times> PositionIndex" where
  "periodicIndex s index =
     (let index' =
        (if snd index \<ge> phidivisions_m s then (fst index, snd index - phidivisions_m s)
         else if snd index < 0 then (fst index, snd index + phidivisions_m s)
         else index)
      in if fst index' < 0 \<or> fst index' \<ge> etadivisions_m s then (False, index')
         else (True, index'))"

section \<open>Element indices\<close>

definition elementIndex :: "Region \<Rightarrow> SubDet \<Rightarrow> Layer \<Rightarrow> ElementIndex" where
  "elementIndex region subdet layer =
     region * MAXSUBDETS * MAXLAYERS + SubDet_value subdet * MAXLAYERS + layer"

definition layer :: "ElementIndex \<Rightarrow> Layer" where
  "layer index = index mod MAXLAYERS"

definition subdet :: "ElementIndex \<Rightarrow> SubDet" where
  "subdet index = SubDet_cast ((index div MAXLAYERS) mod MAXSUBDETS)"

definition region_ElementIndex :: "ElementIndex \<Rightarrow> Region" where
  "region_ElementIndex index = index div (MAXSUBDETS * MAXLAYERS)"

section \<open>Positions\<close>

text \<open>
  \<open>regionDimensions\<close>, lines 159 to 161. Its \<open>double\<close> arithmetic is taken as the exact
  arithmetic of the reals, and \<open>M_PI\<close> as \<open>pi\<close>: rounding is not modelled. The
  dimensions only ever feed a truncation to an integer below, where the two agree unless a
  quotient lies within rounding error of an integer.
\<close>

definition regionDimensions :: "'c SiStripRegionCabling \<Rightarrow> real \<times> real" where
  "regionDimensions s =
     ((2 * etamax_m s) / real (unat (etadivisions_m s)),
      2 * pi / real (unat (phidivisions_m s)))"

text \<open>
  Modelled from the spec: \<open>positionIndex(Position)\<close> is declared in the header and defined
  in SiStripRegionCabling.cc, which is not among the sources. The spec words it as the
  inverse mapping of \<open>position\<close>: floor-divide eta by \<open>dEta\<close>; reduce phi modulo
  \<open>2 pi\<close>, then floor-divide it by \<open>dPhi\<close>. The two bin numbers are stored in
  \<open>uint32_t\<close>.
\<close>

definition positionIndex_Position :: "'c SiStripRegionCabling \<Rightarrow> Position \<Rightarrow> PositionIndex" where
  "positionIndex_Position s position =
     (let dEta = fst (regionDimensions s);
          dPhi = snd (regionDimensions s);
          phi = snd position - 2 * pi * of_int \<lfloor>snd position / (2 * pi)\<rfloor>
      in (word_of_int \<lfloor>fst position / dEta\<rfloor>, word_of_int \<lfloor>phi / dPhi\<rfloor>))"

text \<open>
  Modelled from the spec: \<open>region(Position)\<close>, declared in the header and defined in the
  same absent file; the spec gives it with \<open>positionIndex(Position)\<close> as the mapping from
  a position to the region of the cell that holds it.
\<close>

definition region_Position :: "'c SiStripRegionCabling \<Rightarrow> Position \<Rightarrow> Region" where
  "region_Position s position = region_PositionIndex s (positionIndex_Position s position)"

text \<open>\<open>elementIndex(Position, SubDet, Layer)\<close>, lines 193 to 195.\<close>

definition elementIndex_Position ::
  "'c SiStripRegionCabling \<Rightarrow> Position \<Rightarrow> SubDet \<Rightarrow> Layer \<Rightarrow> ElementIndex" where
  "elementIndex_Position s position sd lay = elementIndex (region_Position s position) sd lay"

section \<open>The window selector\<close>

text \<open>
  Modelled from the spec: \<open>edm::SiStripRefGetter<T>::push_back(lazygetter, index)\<close> is
  declared in DataFormats/SiStripCommon, outside the header. The spec describes it as the
  deferred-fetch collaborator, a sink that registers interest in one element index per
  call. The ref-getter is the sequence of element indices requested so far, and
  \<open>push_back\<close> appends one; the lazy-getter handle is passed through untouched and is
  left out.
\<close>

type_synonym RefGetter = "ElementIndex list"

definition push_back :: "RefGetter \<Rightarrow> ElementIndex \<Rightarrow> RefGetter" where
  "push_back refgetter index = refgetter @ [index]"

text \<open>\<open>updateSiStripRefGetter(refgetter, lazygetter, index)\<close>: the single-element selector.\<close>

definition updateSiStripRefGetter_ElementIndex :: "RefGetter \<Rightarrow> ElementIndex \<Rightarrow> RefGetter" where
  "updateSiStripRefGetter_ElementIndex refgetter index = push_back refgetter index"

text \<open>
  \<open>Position(indextemp)\<close> in the rectangular selector: the converting constructor of
  \<open>std::pair\<close> turns each \<open>uint32_t\<close> bin number into the \<open>double\<close> of the same value
  (every 32-bit integer is a \<open>double\<close>, so the conversion is exact).
\<close>

definition Position_of_PositionIndex :: "PositionIndex \<Rightarrow> Position" where
  "Position_of_PositionIndex index = (real (unat (fst index)), real (unat (snd index)))"

text \<open>
  The conversion of a \<open>double\<close> to \<open>uint32_t\<close> truncates towards zero; C++ leaves the
  result undefined when the truncated value is not a \<open>uint32_t\<close>, which is \<open>None\<close>
  here.
\<close>

definition double_to_uint32 :: "real \<Rightarrow> uint32_t option" where
  "double_to_uint32 x =
     (let t = (if 0 \<le> x then \<lfloor>x\<rfloor> else \<lceil>x\<rceil>)
      in if 0 \<le> t \<and> t < 2 ^ 32 then Some (word_of_int t) else None)"

text \<open>
  A loop counter below its bound can be incremented without wrapping; both loops of the
  rectangular selector terminate by this.
\<close>

lemma unat_inc: "(i::uint32_t) < b \<Longrightarrow> unat (i + 1) = Suc (unat i)"
proof -
  assume "i < b"
  then have "unat i < unat b" by (simp add: word_less_nat_alt)
  moreover have "unat b < 2 ^ 32" using unsigned_less [of b] by simp
  ultimately have "unat i + 1 < 2 ^ 32" by linarith
  then show ?thesis by (simp add: unat_word_ariths)
qed

text \<open>
  The two nested \<open>for\<close> loops of the rectangular selector, lines 221 to 227, over
  \<open>uint32_t\<close> counters: \<open>iphi_loop\<close> is the inner loop from a given \<open>iphi\<close> on,
  \<open>ieta_loop\<close> the outer one from a given \<open>ieta\<close> on.
\<close>

function iphi_loop ::
  "'c SiStripRegionCabling \<Rightarrow> PositionIndex \<Rightarrow> uint32_t \<Rightarrow> uint32_t \<Rightarrow> SubDet \<Rightarrow> Layer \<Rightarrow>
   uint32_t \<Rightarrow> uint32_t \<Rightarrow> RefGetter \<Rightarrow> RefGetter" where
  "iphi_loop s index deta dphi sd lay ieta iphi refgetter =
     (if iphi < 2 * dphi + 1 then
        (let indextemp = (fst index - deta + ieta, snd index - dphi + iphi);
             (valid, indextemp') = periodicIndex s indextemp
         in iphi_loop s index deta dphi sd lay ieta (iphi + 1)
              (if \<not> valid then refgetter
               else updateSiStripRefGetter_ElementIndex refgetter
                      (elementIndex_Position s (Position_of_PositionIndex indextemp') sd lay)))
      else refgetter)"
  by pat_completeness auto
termination
  by (relation "measure (\<lambda>(s, index, deta, dphi, sd, lay, ieta, iphi, refgetter).
        unat (2 * dphi + 1) - unat iphi)")
     (auto simp: unat_inc word_less_nat_alt)

function ieta_loop ::
  "'c SiStripRegionCabling \<Rightarrow> PositionIndex \<Rightarrow> uint32_t \<Rightarrow> uint32_t \<Rightarrow> SubDet \<Rightarrow> Layer \<Rightarrow>
   uint32_t \<Rightarrow> RefGetter \<Rightarrow> RefGetter" where
  "ieta_loop s index deta dphi sd lay ieta refgetter =
     (if ieta < 2 * deta + 1 then
        ieta_loop s index deta dphi sd lay (ieta + 1)
          (iphi_loop s index deta dphi sd lay ieta 0 refgetter)
      else refgetter)"
  by pat_completeness auto
termination
  by (relation "measure (\<lambda>(s, index, deta, dphi, sd, lay, ieta, refgetter).
        unat (2 * deta + 1) - unat ieta)")
     (auto simp: unat_inc word_less_nat_alt)

text \<open>
  The rectangular selector, lines 215 to 228:
  \<open>index = positionIndex(position)\<close>,
  \<open>deta = static_cast<uint32_t>(deltaeta/regionDimensions().first)\<close>,
  \<open>dphi = deltaphi/regionDimensions().second\<close>, then the loops. The result is \<open>None\<close>
  where a conversion to \<open>uint32_t\<close> is undefined, and on an instance with no eta or no
  phi division, whose region dimensions are not real numbers.
\<close>

definition updateSiStripRefGetter_Position ::
  "'c SiStripRegionCabling \<Rightarrow> RefGetter \<Rightarrow> Position \<Rightarrow> real \<Rightarrow> real \<Rightarrow> SubDet \<Rightarrow> Layer \<Rightarrow>
   RefGetter option" where
  "updateSiStripRefGetter_Position s refgetter position deltaeta deltaphi sd lay =
     (if etadivisions_m s = 0 \<or> phidivisions_m s = 0 then None
      else
        let index = positionIndex_Position s position
        in case double_to_uint32 (deltaeta / fst (regionDimensions s)) of
             None \<Rightarrow> None
           | Some deta \<Rightarrow>
               (case double_to_uint32 (deltaphi / snd (regionDimensions s)) of
                  None \<Rightarrow> None
                | Some dphi \<Rightarrow> Some (ieta_loop s index deta dphi sd lay 0 refgetter)))"

subsection \<open>The selector as the specification words it\<close>

text \<open>
  The specification's account of the same selector, to compare the code with. Bin
  numbers are integers here, so that a candidate left of the seam has \<open>phi_bin = -1\<close>.
  \<open>spec_periodicIndex\<close> normalises \<open>phi_bin\<close> into \<open>[0, phidivisions_)\<close> by adding or
  subtracting \<open>phidivisions_\<close> once and rejects a cell whose \<open>eta_bin\<close> is outside
  \<open>[0, etadivisions_)\<close>. The candidates are the cells
  \<open>(center.eta_bin - deta + ieta, center.phi_bin - dphi + iphi)\<close> for \<open>ieta\<close> in
  \<open>[0, 2 deta]\<close> and \<open>iphi\<close> in \<open>[0, 2 dphi]\<close>, eta-major, around the cell that holds
  the centre position, with \<open>deta = floor(deltaEta / dEta)\<close> and
  \<open>dphi = floor(deltaPhi / dPhi)\<close>. Each surviving candidate is requested once, by its
  own element index: that of the region \<open>eta_bin * phidivisions_ + phi_bin\<close> for the
  requested sub-detector and layer.
\<close>

definition spec_periodicIndex :: "'c SiStripRegionCabling \<Rightarrow> int \<times> int \<Rightarrow> (int \<times> int) option" where
  "spec_periodicIndex s cell =
     (let phidivs = uint (phidivisions_m s);
          phi_bin = (if phidivs \<le> snd cell then snd cell - phidivs
                     else if snd cell < 0 then snd cell + phidivs
                     else snd cell)
      in if 0 \<le> fst cell \<and> fst cell < uint (etadivisions_m s) then Some (fst cell, phi_bin)
         else None)"

definition spec_candidates :: "int \<times> int \<Rightarrow> nat \<Rightarrow> nat \<Rightarrow> (int \<times> int) list" where
  "spec_candidates center deta dphi =
     [(fst center - int deta + int ieta, snd center - int dphi + int iphi).
        ieta \<leftarrow> [0..<2 * deta + 1], iphi \<leftarrow> [0..<2 * dphi + 1]]"

definition spec_elementIndex :: "'c SiStripRegionCabling \<Rightarrow> SubDet \<Rightarrow> Layer \<Rightarrow> int \<times> int \<Rightarrow> ElementIndex" where
  "spec_elementIndex s sd lay cell =
     elementIndex (region_PositionIndex s (word_of_int (fst cell), word_of_int (snd cell))) sd lay"

definition spec_window_requests ::
  "'c SiStripRegionCabling \<Rightarrow> Position \<Rightarrow> real \<Rightarrow> real \<Rightarrow> SubDet \<Rightarrow> Layer \<Rightarrow> ElementIndex list" where
  "spec_window_requests s position deltaeta deltaphi sd lay =
     (let center = positionIndex_Position s position;
          deta = nat \<lfloor>deltaeta / fst (regionDimensions s)\<rfloor>;
          dphi = nat \<lfloor>deltaphi / snd (regionDimensions s)\<rfloor>
      in map (spec_elementIndex s sd lay)
           (List.map_filter (spec_periodicIndex s)
              (spec_candidates (uint (fst center), uint (snd center)) deta dphi)))"

section \<open>Which calls change the object\<close>

text \<open>
  The public interface of the class. \<open>setRegionCabling\<close> is its only member function
  that is neither \<open>const\<close> nor \<open>static\<close>; every other one is declared \<open>const\<close> or
  \<open>static\<close> in the class body and cannot assign a data member. (\<open>periodicIndex\<close>
  writes to its argument, the selectors to the ref-getter they are given.)
\<close>

datatype query =
    Q_getRegionCabling
  | Q_etadivisions
  | Q_phidivisions
  | Q_regionDimensions
  | Q_position_Region Region
  | Q_position_PositionIndex PositionIndex
  | Q_positionIndex_Region Region
  | Q_positionIndex_Position Position
  | Q_region_Position Position
  | Q_region_PositionIndex PositionIndex
  | Q_periodicIndex PositionIndex
  | Q_elementIndex Region SubDet Layer
  | Q_elementIndex_Position Position SubDet Layer
  | Q_layer ElementIndex
  | Q_subdet ElementIndex
  | Q_region_ElementIndex ElementIndex
  | Q_subdetFromDetId uint32_t
  | Q_layerFromDetId uint32_t
  | Q_updateSiStripRefGetter_ElementIndex RefGetter ElementIndex
  | Q_updateSiStripRefGetter_window RefGetter Position real real SubDet Layer
  | Q_updateSiStripRefGetter_cone RefGetter Position real SubDet Layer

datatype 'c call = SetRegionCabling "'c Cabling" | Query query

fun object_after :: "'c SiStripRegionCabling \<Rightarrow> 'c call \<Rightarrow> 'c SiStripRegionCabling" where
  "object_after s (SetRegionCabling regioncabling) = setRegionCabling s regioncabling"
| "object_after s (Query q) = s"

section \<open>Example instances\<close>

text \<open>
  Two grids over \<open>|eta| < 2.5\<close> with no cabling installed: 4 by 8 and 5 by 6 divisions.
\<close>

definition grid_4_8 :: "unit SiStripRegionCabling" where
  "grid_4_8 = \<lparr>etadivisions_m = 4, phidivisions_m = 8, etamax_m = 5 / 2, regioncabling_m = []\<rparr>"

definition grid_5_6 :: "unit SiStripRegionCabling" where
  "grid_5_6 = \<lparr>etadivisions_m = 5, phidivisions_m = 6, etamax_m = 5 / 2, regioncabling_m = []\<rparr>"

section \<open>Arithmetic on 32-bit words\<close>

lemma nat_split_40: "(n div 40) * 40 + ((n div 10) mod 4) * 10 + n mod 10 = (n::nat)"
  using mod_mult2_eq [of n 10 4] div_mult_mod_eq [of n 40] by simp

lemma word_div_40: "(e::uint32_t) div 40 = of_nat (unat e div 40)"
  by (simp add: word_arith_nat_div)

lemma word_mod_10: "(e::uint32_t) mod 10 = of_nat (unat e mod 10)"
  by (simp add: word_arith_nat_mod)

lemma word_div_10_mod_4: "(e::uint32_t) div 10 mod 4 = of_nat (unat e div 10 mod 4)"
  by (simp add: word_arith_nat_mod unat_div)

lemma word_split_40: "(e div 40) * 40 + ((e div 10) mod 4) * 10 + e mod 10 = (e::uint32_t)"
proof -
  let ?n = "unat e"
  have "(e div 40) * 40 + ((e div 10) mod 4) * 10 + e mod 10
      = of_nat ((?n div 40) * 40 + ((?n div 10) mod 4) * 10 + ?n mod 10)"
    by (simp add: word_div_40 [symmetric] word_div_10_mod_4 [symmetric] word_mod_10 [symmetric])
  also have "\<dots> = of_nat ?n"
    by (simp only: nat_split_40)
  finally show ?thesis by simp
qed

lemma word_less_4_cases: "(v::uint32_t) < 4 \<Longrightarrow> v = 0 \<or> v = 1 \<or> v = 2 \<or> v = 3"
  by (auto simp: word_less_nat_alt word_unat_eq_iff)

lemma SubDet_value_cast: "v < 4 \<Longrightarrow> SubDet_value (SubDet_cast v) = v"
  using word_less_4_cases [of v] by (auto simp: SubDet_cast_def)

lemma SubDet_cast_value: "SubDet_cast (SubDet_value sd) = sd"
  by (cases sd) (simp_all add: SubDet_cast_def)

lemma SubDet_cast_known: "v < 4 \<Longrightarrow> SubDet_cast v \<in> {TIB, TOB, TID, TEC}"
  using word_less_4_cases [of v] by (auto simp: SubDet_cast_def)

lemma subdet_field_less: "((index::uint32_t) div 10) mod 4 < 4"
  by (simp add: word_mod_less_divisor)

section \<open>The element-index decoders\<close>

text \<open>
  Claim C10. The three decoders of an ElementIndex are total: for every 32-bit index,
  whether or not \<open>elementIndex\<close> produced it, \<open>layer\<close> returns a value below
  \<open>MAXLAYERS\<close> and \<open>subdet\<close> returns one of TIB, TOB, TID, TEC and never UNKNOWN,
  because \<open>(index / MAXLAYERS) % MAXSUBDETS\<close> is below 4; the divisors 10, 4 and 40
  are constants different from zero, so no division can fault.
\<close>

theorem decoders_total:
  "layer index < MAXLAYERS \<and> subdet index \<in> {TIB, TOB, TID, TEC} \<and> subdet index \<noteq> UNKNOWN
   \<and> SubDet_value (subdet index) = (index div MAXLAYERS) mod MAXSUBDETS
   \<and> (index div MAXLAYERS) mod MAXSUBDETS < 4
   \<and> MAXLAYERS \<noteq> 0 \<and> MAXSUBDETS \<noteq> 0 \<and> MAXSUBDETS * MAXLAYERS \<noteq> 0"
proof -
  have f: "(index div 10) mod 4 < 4" by (rule subdet_field_less)
  have 1: "layer index < MAXLAYERS"
    by (simp add: layer_def MAXLAYERS_def word_mod_less_divisor)
  have 2: "subdet index \<in> {TIB, TOB, TID, TEC}"
    unfolding subdet_def MAXLAYERS_def MAXSUBDETS_def by (rule SubDet_cast_known [OF f])
  then have 3: "subdet index \<noteq> UNKNOWN" by auto
  have 4: "SubDet_value (subdet index) = (index div MAXLAYERS) mod MAXSUBDETS"
    unfolding subdet_def MAXLAYERS_def MAXSUBDETS_def by (rule SubDet_value_cast [OF f])
  show ?thesis using 1 2 3 4 f by (simp add: MAXLAYERS_def MAXSUBDETS_def)
qed

section \<open>Encoding and decoding element indices\<close>

lemma elementIndex_decode_encode:
  "elementIndex (region_ElementIndex e) (subdet e) (layer e) = e"
proof -
  have "SubDet_value (subdet e) = (e div 10) mod 4"
    unfolding subdet_def MAXLAYERS_def MAXSUBDETS_def
    by (rule SubDet_value_cast [OF subdet_field_less])
  then show ?thesis
    using word_split_40 [of e]
    by (simp add: elementIndex_def region_ElementIndex_def layer_def MAXLAYERS_def MAXSUBDETS_def mult.commute)
qed

lemma SubDet_value_unat: "sd \<noteq> UNKNOWN \<Longrightarrow> unat (SubDet_value sd) < 4"
  by (cases sd) simp_all

lemma elementIndex_unat:
  assumes "unat r * 40 + unat (SubDet_value sd) * 10 + unat l < 2 ^ 32"
  shows "unat (elementIndex r sd l) = unat r * 40 + unat (SubDet_value sd) * 10 + unat l"
proof -
  let ?N = "unat r * 40 + unat (SubDet_value sd) * 10 + unat l"
  have eq: "elementIndex r sd l = of_nat ?N"
    by (simp add: elementIndex_def MAXLAYERS_def MAXSUBDETS_def)
  have "unat (elementIndex r sd l) = unat (of_nat ?N :: uint32_t)"
    by (simp only: eq)
  also have "\<dots> = ?N mod 2 ^ 32"
    by (simp only: unat_of_nat) simp
  also have "\<dots> = ?N"
    using assms by (rule mod_less)
  finally show ?thesis .
qed

lemma nat_decode:
  assumes "a < 4" "b < 10"
  shows "(r * 40 + a * 10 + b) div 40 = (r::nat)" "(r * 40 + a * 10 + b) div 10 mod 4 = a"
        "(r * 40 + a * 10 + b) mod 10 = b"
proof -
  show "(r * 40 + a * 10 + b) div 40 = r" using assms by simp
  have "(r * 40 + a * 10 + b) div 10 = r * 4 + a" using assms by simp
  then show "(r * 40 + a * 10 + b) div 10 mod 4 = a" using assms by simp
  have "r * 40 + a * 10 + b = b + 10 * (r * 4 + a)" by simp
  then have "(r * 40 + a * 10 + b) mod 10 = (b + 10 * (r * 4 + a)) mod 10" by (rule arg_cong)
  also have "\<dots> = b mod 10" by (rule mod_mult_self2)
  also have "\<dots> = b" using assms(2) by (rule mod_less)
  finally show "(r * 40 + a * 10 + b) mod 10 = b" .
qed

lemma elementIndex_encode_decode:
  assumes sd: "sd \<noteq> UNKNOWN" and l: "l < MAXLAYERS"
    and nowrap: "unat r * 40 + unat (SubDet_value sd) * 10 + unat l < 2 ^ 32"
  shows "region_ElementIndex (elementIndex r sd l) = r"
    and "subdet (elementIndex r sd l) = sd"
    and "layer (elementIndex r sd l) = l"
proof -
  let ?e = "elementIndex r sd l"
  have a: "unat (SubDet_value sd) < 4" using sd by (rule SubDet_value_unat)
  have b: "unat l < 10" using l by (simp add: MAXLAYERS_def word_less_nat_alt)
  have e: "unat ?e = unat r * 40 + unat (SubDet_value sd) * 10 + unat l"
    using nowrap by (rule elementIndex_unat)
  have "unat (?e div 40) = unat r"
    by (simp only: unat_div e) (simp add: nat_decode(1) [OF a b])
  then show "region_ElementIndex ?e = r"
    by (simp add: region_ElementIndex_def MAXLAYERS_def MAXSUBDETS_def word_unat_eq_iff)
  have "unat (?e div 10 mod 4) = unat (SubDet_value sd)"
    by (simp only: unat_div unat_mod e) (simp add: nat_decode(2) [OF a b])
  then have "?e div 10 mod 4 = SubDet_value sd"
    by (simp add: word_unat_eq_iff)
  then show "subdet ?e = sd"
    by (simp add: subdet_def MAXLAYERS_def MAXSUBDETS_def SubDet_cast_value)
  have "unat (?e mod 10) = unat l"
    by (simp only: unat_mod e) (simp add: nat_decode(3) [OF a b])
  then show "layer ?e = l"
    by (simp add: layer_def MAXLAYERS_def word_unat_eq_iff)
qed

text \<open>
  Claim C1 as stated lets the region be any \<open>uint32_t\<close>. From region 107374183 on,
  \<open>region*MAXSUBDETS*MAXLAYERS\<close> exceeds \<open>2 ^ 32 - 1\<close> and wraps: the element index of
  (107374183, TIB, 0) is 24, whose region is 0.
\<close>

theorem elementIndex_wrap_counterexample:
  "elementIndex 107374183 TIB 0 = 24 \<and>
   region_ElementIndex (elementIndex 107374183 TIB 0) \<noteq> 107374183"
  by (simp add: elementIndex_def region_ElementIndex_def MAXLAYERS_def MAXSUBDETS_def)

text \<open>
  Claim C1, amended. Decoding any element index and encoding the three parts again
  gives the index back. Conversely, for a sub-detector among TIB, TOB, TID, TEC, a
  layer below \<open>MAXLAYERS\<close> and a region for which
  \<open>region * 40 + subdet * 10 + layer\<close> stays below \<open>2 ^ 32\<close> (no wrap-around),
  the decoders recover region, sub-detector and layer from \<open>elementIndex\<close>.
\<close>

theorem elementIndex_roundtrip:
  "elementIndex (region_ElementIndex e) (subdet e) (layer e) = e \<and>
   (sd \<noteq> UNKNOWN \<and> l < MAXLAYERS \<and>
    unat r * 40 + unat (SubDet_value sd) * 10 + unat l < 2 ^ 32 \<longrightarrow>
      region_ElementIndex (elementIndex r sd l) = r \<and>
      subdet (elementIndex r sd l) = sd \<and>
      layer (elementIndex r sd l) = l)"
  using elementIndex_decode_encode [of e] elementIndex_encode_decode [of sd l r] by blast

theorem elementIndex_roundtrip_witness:
  "TID \<noteq> UNKNOWN \<and> (7::uint32_t) < MAXLAYERS \<and>
   unat (5::uint32_t) * 40 + unat (SubDet_value TID) * 10 + unat (7::uint32_t) < 2 ^ 32 \<and>
   elementIndex 5 TID 7 = 227 \<and>
   elementIndex (region_ElementIndex 227) (subdet 227) (layer 227) = 227 \<and>
   region_ElementIndex (elementIndex 5 TID 7) = 5 \<and>
   subdet (elementIndex 5 TID 7) = TID \<and>
   layer (elementIndex 5 TID 7) = 7"
  using elementIndex_roundtrip [of 227 TID 7 5]
  by (simp add: MAXLAYERS_def elementIndex_def MAXSUBDETS_def)

section \<open>Regions and position indices\<close>

text \<open>
  Claim C3. On an instance with \<open>phidivisions_ > 0\<close>, \<open>positionIndex(Region)\<close>
  returns \<open>(r / phidivisions_, r % phidivisions_)\<close> and \<open>region(PositionIndex)\<close> maps it
  back to \<open>r\<close>. This holds for every 32-bit \<open>r\<close>, in particular for every region
  below \<open>etadivisions_ * phidivisions_\<close>.
\<close>

theorem region_positionIndex_roundtrip:
  "phidivisions_m s \<noteq> 0 \<Longrightarrow>
   map_option (region_PositionIndex s) (positionIndex_Region s r) = Some r"
  by (simp add: positionIndex_Region_def region_PositionIndex_def div_mult_mod_eq)

theorem region_positionIndex_roundtrip_witness:
  "phidivisions_m grid_4_8 \<noteq> 0 \<and>
   positionIndex_Region grid_4_8 29 = Some (3, 5) \<and>
   map_option (region_PositionIndex grid_4_8)
     (positionIndex_Region grid_4_8 29) = Some 29"
  using region_positionIndex_roundtrip [of grid_4_8 29]
  by (simp add: positionIndex_Region_def grid_4_8_def)

section \<open>Periodic indices\<close>

lemma periodicIndex_fst: "fst (snd (periodicIndex s index)) = fst index"
  by (simp add: periodicIndex_def Let_def)

lemma periodicIndex_flag: "fst (periodicIndex s index) = (fst index < etadivisions_m s)"
  by (auto simp: periodicIndex_def Let_def not_le)

lemma periodicIndex_snd:
  "snd (snd (periodicIndex s index)) =
     (if phidivisions_m s \<le> snd index then snd index - phidivisions_m s else snd index)"
  by (simp add: periodicIndex_def Let_def)

text \<open>
  Claim C4. \<open>periodicIndex\<close> returns false exactly when \<open>eta_bin\<close> is outside
  \<open>[0, etadivisions_)\<close>, which is the same for the index it was given and for the
  phi-normalised index it leaves, because it never modifies \<open>eta_bin\<close>. With
  \<open>etadivisions_ = 4\<close>, an index with \<open>eta_bin = 4\<close> returns false and indices with
  \<open>eta_bin\<close> 0 or 3 return true, whatever \<open>phi_bin\<close> is.
\<close>

theorem periodicIndex_eta_bound:
  "fst (periodicIndex s index) = (fst index < etadivisions_m s) \<and>
   fst (periodicIndex s index) = (fst (snd (periodicIndex s index)) < etadivisions_m s) \<and>
   fst (snd (periodicIndex s index)) = fst index \<and>
   fst (periodicIndex (s\<lparr>etadivisions_m := 4\<rparr>) (4, phi_bin)) = False \<and>
   fst (periodicIndex (s\<lparr>etadivisions_m := 4\<rparr>) (0, phi_bin)) = True \<and>
   fst (periodicIndex (s\<lparr>etadivisions_m := 4\<rparr>) (3, phi_bin)) = True"
  by (simp add: periodicIndex_flag periodicIndex_fst)

text \<open>
  Claim C2, at its own example. With \<open>phidivisions_ = 8\<close> and \<open>etadivisions_ = 4\<close>,
  the index whose \<open>phi_bin\<close> is one below zero (\<open>0xFFFFFFFF\<close> as a \<open>uint32_t\<close>) satisfies
  \<open>index.second >= phidivisions_\<close>, so the code subtracts 8 and leaves
  \<open>phi_bin = 4294967287\<close>, which is neither 7 nor below 8, and returns true. The
  branch \<open>else if (index.second < 0) index.second += phidivisions_\<close> is never taken on
  an unsigned value: whatever the index, \<open>phi_bin\<close> is either decremented by
  \<open>phidivisions_\<close> or left alone. The other example of the claim holds:
  \<open>phi_bin = 8\<close> becomes 0.
\<close>

theorem periodicIndex_minus_one:
  "periodicIndex (s\<lparr>etadivisions_m := 4, phidivisions_m := 8\<rparr>) (0, - 1) = (True, (0, 4294967287)) \<and>
   (- 1 :: uint32_t) = 4294967295 \<and>
   (4294967287::uint32_t) \<noteq> 7 \<and>
   \<not> (4294967287::uint32_t) < 8 \<and>
   periodicIndex (s\<lparr>etadivisions_m := 4, phidivisions_m := 8\<rparr>) (0, 8) = (True, (0, 0)) \<and>
   snd (snd (periodicIndex s index)) =
     (if phidivisions_m s \<le> snd index then snd index - phidivisions_m s else snd index)"
  by (simp add: periodicIndex_def Let_def)

text \<open>
  Claim C9. \<open>periodicIndex\<close> never changes \<open>eta_bin\<close>, but a call that returns false
  can have changed \<open>phi_bin\<close>: the phi normalisation runs before the eta check, so for
  \<open>eta_bin\<close> out of range and \<open>phi_bin \<ge> phidivisions_ > 0\<close> the call returns false
  and leaves \<open>phi_bin - phidivisions_\<close>, a different value, in the caller's index.
\<close>

theorem periodicIndex_not_atomic:
  "fst (snd (periodicIndex s index)) = fst index \<and>
   (etadivisions_m s \<le> fst index \<and> phidivisions_m s \<le> snd index \<and> phidivisions_m s \<noteq> 0 \<longrightarrow>
      periodicIndex s index = (False, (fst index, snd index - phidivisions_m s)) \<and>
      snd (snd (periodicIndex s index)) \<noteq> snd index)"
  by (auto simp: periodicIndex_def Let_def)

theorem periodicIndex_not_atomic_witness:
  "etadivisions_m grid_4_8 \<le> fst (4::uint32_t, 8::uint32_t) \<and>
   phidivisions_m grid_4_8 \<le> snd (4::uint32_t, 8::uint32_t) \<and>
   phidivisions_m grid_4_8 \<noteq> 0 \<and>
   periodicIndex grid_4_8 (4, 8) = (False, (4, 0)) \<and>
   snd (snd (periodicIndex grid_4_8 (4, 8))) \<noteq> snd (4::uint32_t, 8::uint32_t)"
  using periodicIndex_not_atomic [of grid_4_8 "(4, 8)"]
  by (simp add: grid_4_8_def)

section \<open>The rectangular window selector\<close>

subsection \<open>Bounds on \<open>pi\<close> and the cells of the 5 by 6 grid\<close>

lemma pi_gt_3: "3 < pi"
proof -
  have pos: "0 < pi / 24" by simp
  have "pi / 24 < pi" by simp
  with pos have s24: "0 < sin (pi / 24)" by (rule sin_gt_zero)
  have "cos (pi / 12) = cos (2 * (pi / 24))" by simp
  also have "\<dots> = 1 - 2 * (sin (pi / 24))\<^sup>2" by (rule cos_double_sin)
  also have "\<dots> < 1" using s24 by simp
  finally have c12: "cos (pi / 12) < 1" .
  have s12pos: "0 < sin (pi / 12)" by (rule sin_gt_zero) simp_all
  have s12: "sin (pi / 12) \<le> pi / 12" by (rule sin_x_le_x) simp
  have "1 / 2 = sin (2 * (pi / 12))" by (simp add: sin_30)
  also have "\<dots> = 2 * sin (pi / 12) * cos (pi / 12)" by (rule sin_double)
  also have "\<dots> < 2 * sin (pi / 12) * 1"
    using s12pos c12 by (intro mult_strict_left_mono) simp_all
  also have "\<dots> \<le> 2 * (pi / 12)" using s12 by simp
  finally show ?thesis by simp
qed

lemma regionDimensions_grid_5_6: "regionDimensions grid_5_6 = (1, pi / 3)"
  by (simp add: regionDimensions_def grid_5_6_def)

lemma floor_below_one: "0 \<le> x \<Longrightarrow> x < 1 \<Longrightarrow> \<lfloor>x::real\<rfloor> = 0"
  by (rule floor_unique) simp_all

lemma floor_phi_0: "\<lfloor>(1 / 2) / (pi / 3)\<rfloor> = 0"
proof (rule floor_below_one)
  show "0 \<le> (1 / 2) / (pi / 3)" by simp
  have "3 / 2 < pi" using pi_gt_3 by linarith
  then show "(1 / 2) / (pi / 3) < 1" by (simp add: field_simps)
qed

lemma floor_phi_1: "\<lfloor>1 / (pi / 3)\<rfloor> = 0"
proof (rule floor_below_one)
  show "0 \<le> 1 / (pi / 3)" by simp
  show "1 / (pi / 3) < 1" using pi_gt_3 by (simp add: field_simps)
qed

lemma floor_turns: "0 \<le> phi \<Longrightarrow> phi \<le> 6 \<Longrightarrow> \<lfloor>phi / (2 * pi)\<rfloor> = 0"
proof (rule floor_below_one)
  assume "0 \<le> phi" "phi \<le> 6"
  then show "0 \<le> phi / (2 * pi)" by simp
  have "phi < 2 * pi" using \<open>phi \<le> 6\<close> pi_gt_3 by linarith
  then show "phi / (2 * pi) < 1" by (simp add: field_simps)
qed

lemma floor_dphi: "\<lfloor>(3 / 2) / (pi / 3)\<rfloor> = 1"
proof (rule floor_unique)
  have "2 * pi \<le> 9" using pi_less_4 by linarith
  then show "of_int 1 \<le> (3 / 2) / (pi / 3)" by (simp add: field_simps)
  have "9 < 4 * pi" using pi_gt_3 by linarith
  then show "(3 / 2) / (pi / 3) < of_int 1 + 1" by (simp add: field_simps)
qed

lemma positionIndex_Position_grid_5_6:
  assumes "0 \<le> phi" and "phi \<le> 6"
  shows "positionIndex_Position grid_5_6 (eta, phi) =
           (word_of_int \<lfloor>eta\<rfloor>, word_of_int \<lfloor>phi / (pi / 3)\<rfloor>)"
proof -
  have t: "\<lfloor>phi / (2 * pi)\<rfloor> = 0" using assms by (rule floor_turns)
  show ?thesis
    unfolding positionIndex_Position_def regionDimensions_grid_5_6 Let_def fst_conv snd_conv t
    by simp
qed

lemma positionIndex_centre: "positionIndex_Position grid_5_6 (9 / 2, 1 / 2) = (4, 0)"
proof -
  have e: "\<lfloor>9 / 2 :: real\<rfloor> = 4" by (rule floor_unique) simp_all
  have "positionIndex_Position grid_5_6 (9 / 2, 1 / 2) =
          (word_of_int \<lfloor>9 / 2 :: real\<rfloor>, word_of_int \<lfloor>(1 / 2) / (pi / 3)\<rfloor>)"
    by (rule positionIndex_Position_grid_5_6) simp_all
  then show ?thesis by (simp only: e floor_phi_0) simp
qed

lemma positionIndex_bins:
  "positionIndex_Position grid_5_6 (3, 0) = (3, 0)"
  "positionIndex_Position grid_5_6 (3, 1) = (3, 0)"
  "positionIndex_Position grid_5_6 (4, 0) = (4, 0)"
  "positionIndex_Position grid_5_6 (4, 1) = (4, 0)"
proof -
  have z: "\<lfloor>0 / (pi / 3)\<rfloor> = 0" by simp
  have "positionIndex_Position grid_5_6 (3, 0) = (word_of_int \<lfloor>3 :: real\<rfloor>, word_of_int \<lfloor>0 / (pi / 3)\<rfloor>)"
    by (rule positionIndex_Position_grid_5_6) simp_all
  then show "positionIndex_Position grid_5_6 (3, 0) = (3, 0)" by (simp only: z) simp
  have "positionIndex_Position grid_5_6 (3, 1) = (word_of_int \<lfloor>3 :: real\<rfloor>, word_of_int \<lfloor>1 / (pi / 3)\<rfloor>)"
    by (rule positionIndex_Position_grid_5_6) simp_all
  then show "positionIndex_Position grid_5_6 (3, 1) = (3, 0)" by (simp only: floor_phi_1) simp
  have "positionIndex_Position grid_5_6 (4, 0) = (word_of_int \<lfloor>4 :: real\<rfloor>, word_of_int \<lfloor>0 / (pi / 3)\<rfloor>)"
    by (rule positionIndex_Position_grid_5_6) simp_all
  then show "positionIndex_Position grid_5_6 (4, 0) = (4, 0)" by (simp only: z) simp
  have "positionIndex_Position grid_5_6 (4, 1) = (word_of_int \<lfloor>4 :: real\<rfloor>, word_of_int \<lfloor>1 / (pi / 3)\<rfloor>)"
    by (rule positionIndex_Position_grid_5_6) simp_all
  then show "positionIndex_Position grid_5_6 (4, 1) = (4, 0)" by (simp only: floor_phi_1) simp
qed

lemma grid_5_6_divisions: "etadivisions_m grid_5_6 = 5" "phidivisions_m grid_5_6 = 6"
  by (simp_all add: grid_5_6_def)

lemma elementIndex_Position_bins:
  "elementIndex_Position grid_5_6 (3, 0) TIB 0 = 720"
  "elementIndex_Position grid_5_6 (3, 1) TIB 0 = 720"
  "elementIndex_Position grid_5_6 (4, 0) TIB 0 = 960"
  "elementIndex_Position grid_5_6 (4, 1) TIB 0 = 960"
  by (simp_all add: elementIndex_Position_def region_Position_def positionIndex_bins
      region_PositionIndex_def elementIndex_def MAXLAYERS_def MAXSUBDETS_def grid_5_6_divisions)

lemma double_to_uint32_deta: "double_to_uint32 (1 / fst (regionDimensions grid_5_6)) = Some 1"
  by (simp add: regionDimensions_grid_5_6 double_to_uint32_def)

lemma double_to_uint32_dphi: "double_to_uint32 ((3 / 2) / snd (regionDimensions grid_5_6)) = Some 1"
  unfolding regionDimensions_grid_5_6 snd_conv double_to_uint32_def Let_def
  by (simp only: floor_dphi) simp

subsection \<open>A window across the phi seam\<close>

text \<open>
  The 5 by 6 grid has \<open>dEta = 1\<close> and \<open>dPhi = pi / 3\<close>. The position
  \<open>(eta, phi) = (4.5, 0.5)\<close> lies in cell (4, 0), and the half-widths
  \<open>deltaeta = 1\<close>, \<open>deltaphi = 1.5\<close> give \<open>deta = dphi = 1\<close>, so the window reaches
  one cell across the seam, to \<open>phi_bin = -1\<close>.
\<close>

lemma periodicIndex_seam:
  "periodicIndex grid_5_6 (3, - 1) = (True, (3, 4294967289))"
  "periodicIndex grid_5_6 (3, 0) = (True, (3, 0))"
  "periodicIndex grid_5_6 (3, 1) = (True, (3, 1))"
  "periodicIndex grid_5_6 (4, - 1) = (True, (4, 4294967289))"
  "periodicIndex grid_5_6 (4, 0) = (True, (4, 0))"
  "periodicIndex grid_5_6 (4, 1) = (True, (4, 1))"
  "fst (periodicIndex grid_5_6 (5, phi_bin)) = False"
  by (simp_all add: periodicIndex_def grid_5_6_divisions Let_def word_le_nat_alt
      unsigned_minus_1_eq_mask mask_eq_exp_minus_1)

lemma Position_of_PositionIndex_seam:
  "Position_of_PositionIndex (3, 4294967289) = (3, 4294967289)"
  "Position_of_PositionIndex (4, 4294967289) = (4, 4294967289)"
  "Position_of_PositionIndex (3, 0) = (3, 0)"
  "Position_of_PositionIndex (3, 1) = (3, 1)"
  "Position_of_PositionIndex (4, 0) = (4, 0)"
  "Position_of_PositionIndex (4, 1) = (4, 1)"
  by (simp_all add: Position_of_PositionIndex_def)

lemma loops_seam:
  "ieta_loop grid_5_6 (4, 0) 1 1 TIB 0 0 [] =
     [elementIndex_Position grid_5_6 (3, 4294967289) TIB 0, 720, 720,
      elementIndex_Position grid_5_6 (4, 4294967289) TIB 0, 960, 960]"
  by (simp add: periodicIndex_seam Position_of_PositionIndex_seam elementIndex_Position_bins
      updateSiStripRefGetter_ElementIndex_def push_back_def split_beta)

lemma spec_candidates_seam:
  "spec_candidates (4, 0) 1 1 =
     [(3, - 1), (3, 0), (3, 1), (4, - 1), (4, 0), (4, 1), (5, - 1), (5, 0), (5, 1)]"
  by (simp add: spec_candidates_def upt_rec)

lemma spec_periodicIndex_seam:
  "List.map_filter (spec_periodicIndex grid_5_6)
     [(3, - 1), (3, 0), (3, 1), (4, - 1), (4, 0), (4, 1), (5, - 1), (5, 0), (5, 1)] =
     [(3, 5), (3, 0), (3, 1), (4, 5), (4, 0), (4, 1)]"
  by (simp add: List.map_filter_simps spec_periodicIndex_def grid_5_6_divisions Let_def)

lemma spec_elementIndex_seam:
  "map (spec_elementIndex grid_5_6 TIB 0) [(3, 5), (3, 0), (3, 1), (4, 5), (4, 0), (4, 1)] =
     [920, 720, 760, 1160, 960, 1000]"
  by (simp add: spec_elementIndex_def region_PositionIndex_def elementIndex_def
      MAXLAYERS_def MAXSUBDETS_def grid_5_6_divisions)

lemma spec_window_requests_seam:
  "spec_window_requests grid_5_6 (9 / 2, 1 / 2) 1 (3 / 2) TIB 0 = [920, 720, 760, 1160, 960, 1000]"
proof -
  have deta: "nat \<lfloor>1 / fst (regionDimensions grid_5_6)\<rfloor> = 1"
    by (simp add: regionDimensions_grid_5_6)
  have dphi: "nat \<lfloor>(3 / 2) / snd (regionDimensions grid_5_6)\<rfloor> = 1"
    unfolding regionDimensions_grid_5_6 snd_conv floor_dphi by simp
  have c: "(uint (fst (4::uint32_t, 0::uint32_t)), uint (snd (4::uint32_t, 0::uint32_t))) = (4, 0)"
    by simp
  show ?thesis
    unfolding spec_window_requests_def Let_def positionIndex_centre deta dphi c
      spec_candidates_seam spec_periodicIndex_seam spec_elementIndex_seam
    by (rule refl)
qed

lemma updateSiStripRefGetter_seam:
  "updateSiStripRefGetter_Position grid_5_6 [] (9 / 2, 1 / 2) 1 (3 / 2) TIB 0 =
     Some [elementIndex_Position grid_5_6 (3, 4294967289) TIB 0, 720, 720,
           elementIndex_Position grid_5_6 (4, 4294967289) TIB 0, 960, 960]"
  unfolding updateSiStripRefGetter_Position_def Let_def positionIndex_centre
    double_to_uint32_deta double_to_uint32_dphi option.case loops_seam grid_5_6_divisions
  by simp

subsection \<open>The nine cells of the specification's example\<close>

text \<open>
  Centre cell (2, 2) with \<open>deta = dphi = 1\<close> on six phi divisions: nine candidates,
  none of them at the seam or outside the eta range.
\<close>

lemma floor_phi_2: "\<lfloor>2 / (pi / 3)\<rfloor> = 1"
proof (rule floor_unique)
  have "pi \<le> 6" using pi_less_4 by linarith
  then show "of_int 1 \<le> 2 / (pi / 3)" by (simp add: field_simps)
  show "2 / (pi / 3) < of_int 1 + 1" using pi_gt_3 by (simp add: field_simps)
qed

lemma floor_phi_3: "\<lfloor>3 / (pi / 3)\<rfloor> = 2"
proof (rule floor_unique)
  have "2 * pi \<le> 9" using pi_less_4 by linarith
  then show "of_int 2 \<le> 3 / (pi / 3)" by (simp add: field_simps)
  show "3 / (pi / 3) < of_int 2 + 1" using pi_gt_3 by (simp add: field_simps)
qed

lemma floor_phi_centre: "\<lfloor>(14 / 5) / (pi / 3)\<rfloor> = 2"
proof (rule floor_unique)
  have "10 * pi \<le> 42" using pi_less_4 by linarith
  then show "of_int 2 \<le> (14 / 5) / (pi / 3)" by (simp add: field_simps)
  have "42 < 15 * pi" using pi_gt_3 by linarith
  then show "(14 / 5) / (pi / 3) < of_int 2 + 1" by (simp add: field_simps)
qed

lemma positionIndex_centre_2_2: "positionIndex_Position grid_5_6 (5 / 2, 14 / 5) = (2, 2)"
proof -
  have e: "\<lfloor>5 / 2 :: real\<rfloor> = 2" by (rule floor_unique) simp_all
  have "positionIndex_Position grid_5_6 (5 / 2, 14 / 5) =
          (word_of_int \<lfloor>5 / 2 :: real\<rfloor>, word_of_int \<lfloor>(14 / 5) / (pi / 3)\<rfloor>)"
    by (rule positionIndex_Position_grid_5_6) simp_all
  then show ?thesis by (simp only: e floor_phi_centre) simp
qed

lemma positionIndex_of_bins:
  assumes "eta_bin \<in> {1, 2, 3}"
  shows "positionIndex_Position grid_5_6 (real_of_int eta_bin, 1) = (word_of_int eta_bin, 0)"
    and "positionIndex_Position grid_5_6 (real_of_int eta_bin, 2) = (word_of_int eta_bin, 1)"
    and "positionIndex_Position grid_5_6 (real_of_int eta_bin, 3) = (word_of_int eta_bin, 2)"
proof -
  have "positionIndex_Position grid_5_6 (real_of_int eta_bin, 1) =
      (word_of_int \<lfloor>real_of_int eta_bin\<rfloor>, word_of_int \<lfloor>1 / (pi / 3)\<rfloor>)"
    by (rule positionIndex_Position_grid_5_6) simp_all
  then show "positionIndex_Position grid_5_6 (real_of_int eta_bin, 1) = (word_of_int eta_bin, 0)"
    by (simp only: floor_phi_1 floor_of_int) simp
  have "positionIndex_Position grid_5_6 (real_of_int eta_bin, 2) =
      (word_of_int \<lfloor>real_of_int eta_bin\<rfloor>, word_of_int \<lfloor>2 / (pi / 3)\<rfloor>)"
    by (rule positionIndex_Position_grid_5_6) simp_all
  then show "positionIndex_Position grid_5_6 (real_of_int eta_bin, 2) = (word_of_int eta_bin, 1)"
    by (simp only: floor_phi_2 floor_of_int) simp
  have "positionIndex_Position grid_5_6 (real_of_int eta_bin, 3) =
      (word_of_int \<lfloor>real_of_int eta_bin\<rfloor>, word_of_int \<lfloor>3 / (pi / 3)\<rfloor>)"
    by (rule positionIndex_Position_grid_5_6) simp_all
  then show "positionIndex_Position grid_5_6 (real_of_int eta_bin, 3) = (word_of_int eta_bin, 2)"
    by (simp only: floor_phi_3 floor_of_int) simp
qed

lemma elementIndex_Position_nine:
  "elementIndex_Position grid_5_6 (1, 1) TIB 0 = 240"
  "elementIndex_Position grid_5_6 (1, 2) TIB 0 = 280"
  "elementIndex_Position grid_5_6 (1, 3) TIB 0 = 320"
  "elementIndex_Position grid_5_6 (2, 1) TIB 0 = 480"
  "elementIndex_Position grid_5_6 (2, 2) TIB 0 = 520"
  "elementIndex_Position grid_5_6 (2, 3) TIB 0 = 560"
  "elementIndex_Position grid_5_6 (3, 1) TIB 0 = 720"
  "elementIndex_Position grid_5_6 (3, 2) TIB 0 = 760"
  "elementIndex_Position grid_5_6 (3, 3) TIB 0 = 800"
  using positionIndex_of_bins [of 1] positionIndex_of_bins [of 2] positionIndex_of_bins [of 3]
  by (simp_all add: elementIndex_Position_def region_Position_def
      region_PositionIndex_def elementIndex_def MAXLAYERS_def MAXSUBDETS_def grid_5_6_divisions)

lemma updateSiStripRefGetter_nine_cells:
  "updateSiStripRefGetter_Position grid_5_6 [] (5 / 2, 14 / 5) 1 (3 / 2) TIB 0 =
     Some [240, 280, 320, 480, 520, 560, 720, 760, 800] \<and>
   spec_window_requests grid_5_6 (5 / 2, 14 / 5) 1 (3 / 2) TIB 0 =
     [280, 320, 360, 520, 560, 600, 760, 800, 840]"
proof
  have loops: "ieta_loop grid_5_6 (2, 2) 1 1 TIB 0 0 [] = [240, 280, 320, 480, 520, 560, 720, 760, 800]"
    by (simp add: periodicIndex_def grid_5_6_divisions Let_def word_le_nat_alt
        Position_of_PositionIndex_def elementIndex_Position_nine
        updateSiStripRefGetter_ElementIndex_def push_back_def)
  show "updateSiStripRefGetter_Position grid_5_6 [] (5 / 2, 14 / 5) 1 (3 / 2) TIB 0 =
     Some [240, 280, 320, 480, 520, 560, 720, 760, 800]"
    unfolding updateSiStripRefGetter_Position_def Let_def positionIndex_centre_2_2
      double_to_uint32_deta double_to_uint32_dphi option.case loops grid_5_6_divisions
    by simp
  have deta: "nat \<lfloor>1 / fst (regionDimensions grid_5_6)\<rfloor> = 1"
    by (simp add: regionDimensions_grid_5_6)
  have dphi: "nat \<lfloor>(3 / 2) / snd (regionDimensions grid_5_6)\<rfloor> = 1"
    unfolding regionDimensions_grid_5_6 snd_conv floor_dphi by simp
  have c: "(uint (fst (2::uint32_t, 2::uint32_t)), uint (snd (2::uint32_t, 2::uint32_t))) = (2, 2)"
    by simp
  have cands: "spec_candidates (2, 2) 1 1 =
     [(1, 1), (1, 2), (1, 3), (2, 1), (2, 2), (2, 3), (3, 1), (3, 2), (3, 3)]"
    by (simp add: spec_candidates_def upt_rec)
  have surv: "List.map_filter (spec_periodicIndex grid_5_6)
     [(1, 1), (1, 2), (1, 3), (2, 1), (2, 2), (2, 3), (3, 1), (3, 2), (3, 3)] =
     [(1, 1), (1, 2), (1, 3), (2, 1), (2, 2), (2, 3), (3, 1), (3, 2), (3, 3)]"
    by (simp add: List.map_filter_simps spec_periodicIndex_def grid_5_6_divisions Let_def)
  have reqs: "map (spec_elementIndex grid_5_6 TIB 0)
     [(1, 1), (1, 2), (1, 3), (2, 1), (2, 2), (2, 3), (3, 1), (3, 2), (3, 3)] =
     [280, 320, 360, 520, 560, 600, 760, 800, 840]"
    by (simp add: spec_elementIndex_def region_PositionIndex_def elementIndex_def
        MAXLAYERS_def MAXSUBDETS_def grid_5_6_divisions)
  show "spec_window_requests grid_5_6 (5 / 2, 14 / 5) 1 (3 / 2) TIB 0 =
     [280, 320, 360, 520, 560, 600, 760, 800, 840]"
    unfolding spec_window_requests_def Let_def positionIndex_centre_2_2 deta dphi c cands surv reqs
    by (rule refl)
qed

subsection \<open>The requests of the selector\<close>

text \<open>
  Claim C5, evaluated. The claim has the selector request, for each candidate cell that
  survives \<open>periodicIndex\<close>, that cell's own element index. The code does not.
  On the 5 by 6 grid, for the position (4.5, 0.5) and half-widths 1 and 1.5 (centre
  cell (4, 0), \<open>deta = dphi = 1\<close>), the candidates (3, -1) and (4, -1) leave
  \<open>periodicIndex\<close> with \<open>phi_bin = 4294967289\<close> instead of 5, and every request is
  \<open>elementIndex(Position(indextemp), subdet, layer)\<close>: the bin numbers go to
  \<open>region(Position)\<close> as if they were eta and phi. So the cells (3, 1) and (4, 1) are
  requested as the elements 720 and 960 of the cells (3, 0) and (4, 0), a second time
  each, where the claim has 760 and 1000, and the two cells across the seam are requested
  through the position with \<open>phi = 4294967289\<close>, where the claim has the elements 920
  and 1160 of the cells (3, 5) and (4, 5). On the nine cells around (2, 2) all nine
  requests name the cell one phi bin to the left.
\<close>

theorem window_selector_wrong_cells:
  "updateSiStripRefGetter_Position grid_5_6 [] (9 / 2, 1 / 2) 1 (3 / 2) TIB 0 =
     Some [elementIndex_Position grid_5_6 (3, 4294967289) TIB 0, 720, 720,
           elementIndex_Position grid_5_6 (4, 4294967289) TIB 0, 960, 960] \<and>
   spec_window_requests grid_5_6 (9 / 2, 1 / 2) 1 (3 / 2) TIB 0 =
     [920, 720, 760, 1160, 960, 1000] \<and>
   updateSiStripRefGetter_Position grid_5_6 [] (9 / 2, 1 / 2) 1 (3 / 2) TIB 0 \<noteq>
     Some ([] @ spec_window_requests grid_5_6 (9 / 2, 1 / 2) 1 (3 / 2) TIB 0) \<and>
   updateSiStripRefGetter_Position grid_5_6 [] (5 / 2, 14 / 5) 1 (3 / 2) TIB 0 =
     Some [240, 280, 320, 480, 520, 560, 720, 760, 800] \<and>
   spec_window_requests grid_5_6 (5 / 2, 14 / 5) 1 (3 / 2) TIB 0 =
     [280, 320, 360, 520, 560, 600, 760, 800, 840]"
proof -
  note seam = updateSiStripRefGetter_seam spec_window_requests_seam
  have "updateSiStripRefGetter_Position grid_5_6 [] (9 / 2, 1 / 2) 1 (3 / 2) TIB 0 \<noteq>
     Some ([] @ spec_window_requests grid_5_6 (9 / 2, 1 / 2) 1 (3 / 2) TIB 0)"
    by (simp add: seam)
  with seam updateSiStripRefGetter_nine_cells show ?thesis
    by (intro conjI) simp_all
qed

section \<open>Which calls change the object: the frame\<close>

text \<open>
  Claim C8. \<open>setRegionCabling\<close> replaces the whole cabling in one assignment:
  \<open>getRegionCabling\<close> returns the new cabling right after it, and \<open>etadivisions_\<close>,
  \<open>phidivisions_\<close> and \<open>etamax_\<close> are as before. A call of any other public member
  function (the queries \<open>position\<close>, \<open>positionIndex\<close>, \<open>region\<close>, \<open>periodicIndex\<close>,
  \<open>elementIndex\<close>, the decoders and the selectors) leaves the object as it was, the
  cabling included, and no call at all changes the three grid parameters.
\<close>

theorem setRegionCabling_frame:
  "getRegionCabling (setRegionCabling s c) = c \<and>
   etadivisions_m (setRegionCabling s c) = etadivisions_m s \<and>
   phidivisions_m (setRegionCabling s c) = phidivisions_m s \<and>
   etamax_m (setRegionCabling s c) = etamax_m s \<and>
   etadivisions (setRegionCabling s c) = etadivisions s \<and>
   phidivisions (setRegionCabling s c) = phidivisions s \<and>
   getRegionCabling (object_after s (SetRegionCabling c)) = c \<and>
   object_after s (Query q) = s \<and>
   getRegionCabling (object_after s (Query q)) = getRegionCabling s \<and>
   etadivisions_m (object_after s a) = etadivisions_m s \<and>
   phidivisions_m (object_after s a) = phidivisions_m s \<and>
   etamax_m (object_after s a) = etamax_m s"
  by (cases a)
     (simp_all add: setRegionCabling_def getRegionCabling_def etadivisions_def phidivisions_def)

end
